theory Spec2Isabelle
  imports Main
begin

section \<open>Data model\<close>

text \<open>
  The module under study is \<^verbatim>\<open>azdev/operations/style.py\<close>. Its functions keep their
  names, without the leading underscore of \<^verbatim>\<open>_combine_command_result\<close>, \<^verbatim>\<open>_run_pep8\<close> and
  \<^verbatim>\<open>_config_file_path\<close>.

  Python exceptions are values of the type \<open>exn\<close>; a function that may raise returns
  \<open>exn + 'a\<close> with \<open>Inl\<close> the raised exception. \<^verbatim>\<open>sys.exit(n)\<close> raises \<open>SystemExit n\<close>.

  What the model takes for granted:
  \<^item> a character is a code point below 256, and the attribute \<^verbatim>\<open>output\<close> of an error
    object is given by the text it decodes to;
  \<^item> the result of a command is \<^verbatim>\<open>None\<close>, a \<^verbatim>\<open>str\<close> or a \<^verbatim>\<open>bytes\<close>: the subprocess runner
    returns the decoded output of a command that succeeds and the raw output of one
    that fails;
  \<^item> the path table lookup, the git-diff filter, the glob and the subprocess runner
    return when called; \<^verbatim>\<open>require_azure_cli\<close> and the lookups of the settings store may
    raise;
  \<^item> the error objects of two command results are two objects.
\<close>

datatype exn =
    CLIError string
  | ValueError string
  | AttributeError
  | IndexError
  | KeyError string
  | TypeError
  | NoSectionError string
  | NoOptionError string string
  | SystemExit int

text \<open>
  An error object carried by a command result. The source reads three things from it:
  the attribute \<^verbatim>\<open>message\<close>, which may be absent (reading it then raises
  \<^verbatim>\<open>AttributeError\<close>), the attribute \<^verbatim>\<open>output\<close> (the captured bytes of the tool, the
  field \<open>output_bytes\<close>) and its string conversion \<^verbatim>\<open>str(error)\<close>. An error object is always truthy, the absent
  error is \<^verbatim>\<open>None\<close>.
\<close>

record err =
  message :: "string option"
  output_bytes :: string
  str_conv :: string

text \<open>
  The output of a command as the subprocess runner stores it in a command result: a
  \<^verbatim>\<open>str\<close> or a \<^verbatim>\<open>bytes\<close>. Two values of one kind concatenate; \<^verbatim>\<open>+\<close> on a \<^verbatim>\<open>str\<close> and a
  \<^verbatim>\<open>bytes\<close>, in either order, raises \<^verbatim>\<open>TypeError\<close>.
\<close>

datatype pytext = Str string | Bytes string

fun pytext_add :: "pytext \<Rightarrow> pytext \<Rightarrow> exn + pytext" where
  "pytext_add (Str a) (Str b) = Inr (Str (a @ b))"
| "pytext_add (Bytes a) (Bytes b) = Inr (Bytes (a @ b))"
| "pytext_add (Str a) (Bytes b) = Inl TypeError"
| "pytext_add (Bytes a) (Str b) = Inl TypeError"

text \<open>
  \<^verbatim>\<open>knack.util.CommandResultItem\<close>, restricted to the three fields the module touches.
  The exit code is an unbounded Python integer.
\<close>

record command_result =
  exit_code :: int
  error :: "err option"
  result :: "pytext option"

text \<open>The constructor call \<^verbatim>\<open>CommandResultItem(r)\<close> with the defaults of knack:
  \<^verbatim>\<open>exit_code=0, error=None\<close>.\<close>

definition CommandResultItem :: "pytext option \<Rightarrow> command_result" where
  "CommandResultItem r = \<lparr>exit_code = 0, error = None, result = r\<rparr>"

text \<open>Truthiness of an optional text: \<^verbatim>\<open>None\<close> and the empty text are falsy.\<close>

fun truthy_text :: "string option \<Rightarrow> bool" where
  "truthy_text None = False"
| "truthy_text (Some s) = (s \<noteq> [])"

text \<open>Truthiness of a result: \<^verbatim>\<open>None\<close>, the empty \<^verbatim>\<open>str\<close> and the empty \<^verbatim>\<open>bytes\<close> are
  falsy.\<close>

fun truthy_result :: "pytext option \<Rightarrow> bool" where
  "truthy_result None = False"
| "truthy_result (Some (Str s)) = (s \<noteq> [])"
| "truthy_result (Some (Bytes s)) = (s \<noteq> [])"

section \<open>Result combiner\<close>

text \<open>
  The nested function \<^verbatim>\<open>apply_result(item)\<close> of \<^verbatim>\<open>_combine_command_result\<close>. It mutates
  the enclosing \<^verbatim>\<open>final_result\<close>, which is here passed in and returned.
  \<^verbatim>\<open>
        if item:
            final_result.exit_code += item.exit_code
            if item.error:
                if final_result.error:
                    try:
                        final_result.error.message += item.error.message
                    except AttributeError:
                        final_result.error.message += str(item.error)
                else:
                    final_result.error = item.error
                    setattr(final_result.error, 'message', '')
            if item.result:
                if final_result.result:
                    final_result.result += item.result
                else:
                    final_result.result = item.result
  \<close>
  The two error objects of one combination are taken to be distinct objects (each
  comes from its own subprocess call), so the in-place update of the kept error is an
  update of the returned value. \<open>apply_error\<close> is the block under \<^verbatim>\<open>if item.error\<close> and
  \<open>apply_text\<close> the block under \<^verbatim>\<open>if item.result\<close>, whose \<^verbatim>\<open>+=\<close> raises \<^verbatim>\<open>TypeError\<close> on a
  \<^verbatim>\<open>str\<close> and a \<^verbatim>\<open>bytes\<close>.
\<close>

definition apply_error :: "command_result \<Rightarrow> err \<Rightarrow> exn + command_result" where
  "apply_error final_result item_error =
     (case error final_result of
        Some fe \<Rightarrow>
          (case message fe of
             None \<Rightarrow> Inl AttributeError
           | Some fm \<Rightarrow>
               Inr (final_result\<lparr>error := Some (fe\<lparr>message := Some (fm @
                 (case message item_error of
                    Some im \<Rightarrow> im
                  | None \<Rightarrow> str_conv item_error))\<rparr>)\<rparr>))
      | None \<Rightarrow> Inr (final_result\<lparr>error := Some (item_error\<lparr>message := Some []\<rparr>)\<rparr>))"

definition apply_text :: "command_result \<Rightarrow> pytext option \<Rightarrow> exn + command_result" where
  "apply_text final_result item_result =
     (if truthy_result item_result then
        (if truthy_result (result final_result) then
           (case (result final_result, item_result) of
              (Some fr, Some ir) \<Rightarrow>
                (case pytext_add fr ir of
                   Inl e \<Rightarrow> Inl e
                 | Inr joined \<Rightarrow> Inr (final_result\<lparr>result := Some joined\<rparr>))
            | _ \<Rightarrow> Inr final_result)
         else Inr (final_result\<lparr>result := item_result\<rparr>))
      else Inr final_result)"

definition apply_result :: "command_result \<Rightarrow> command_result option \<Rightarrow> exn + command_result" where
  "apply_result final_result item =
     (case item of
        None \<Rightarrow> Inr final_result
      | Some it \<Rightarrow>
          (case (case error it of
                   None \<Rightarrow> Inr (final_result\<lparr>exit_code := exit_code final_result + exit_code it\<rparr>)
                 | Some ie \<Rightarrow>
                     apply_error (final_result\<lparr>exit_code := exit_code final_result + exit_code it\<rparr>) ie) of
             Inl e \<Rightarrow> Inl e
           | Inr f \<Rightarrow> apply_text f (result it)))"

definition combine_command_result ::
  "command_result option \<Rightarrow> command_result option \<Rightarrow> exn + command_result" where
  "combine_command_result cli_result ext_result =
     (case apply_result (CommandResultItem None) cli_result of
        Inl e \<Rightarrow> Inl e
      | Inr f \<Rightarrow> apply_result f ext_result)"

section \<open>Text helpers\<close>

text \<open>\<^verbatim>\<open>sep.join(xs)\<close>.\<close>

fun join_str :: "string \<Rightarrow> string list \<Rightarrow> string" where
  "join_str sep [] = []"
| "join_str sep [x] = x"
| "join_str sep (x # y # ys) = x @ sep @ join_str sep (y # ys)"

text \<open>\<^verbatim>\<open>s.split(c)\<close> with an explicit one-character separator: empty fields are kept and
  the empty text gives one empty field.\<close>

fun split_on :: "char \<Rightarrow> string \<Rightarrow> string list" where
  "split_on c [] = [[]]"
| "split_on c (x # xs) =
     (if x = c then [] # split_on c xs
      else (case split_on c xs of
              [] \<Rightarrow> [[x]]
            | y # ys \<Rightarrow> (x # y) # ys))"

text \<open>\<^verbatim>\<open>s.split()\<close> with no separator: runs of white space separate the fields and no
  field is empty. The white space of Python below code point 256 is 9..13, 28..32,
  133 (U+0085) and 160 (U+00A0).\<close>

definition is_space :: "char \<Rightarrow> bool" where
  "is_space c = ((9 \<le> (of_char c :: nat) \<and> (of_char c :: nat) \<le> 13) \<or>
                 (28 \<le> (of_char c :: nat) \<and> (of_char c :: nat) \<le> 32) \<or>
                 (of_char c :: nat) = 133 \<or> (of_char c :: nat) = 160)"

fun split_ws_from :: "string \<Rightarrow> string \<Rightarrow> string list" where
  "split_ws_from cur [] = (if cur = [] then [] else [cur])"
| "split_ws_from cur (c # cs) =
     (if is_space c then (if cur = [] then split_ws_from [] cs else cur # split_ws_from [] cs)
      else split_ws_from (cur @ [c]) cs)"

definition split_ws :: "string \<Rightarrow> string list" where
  "split_ws s = split_ws_from [] s"

text \<open>\<^verbatim>\<open>sub in s\<close> on texts.\<close>

fun starts_with :: "string \<Rightarrow> string \<Rightarrow> bool" where
  "starts_with [] s = True"
| "starts_with (a # as) [] = False"
| "starts_with (a # as) (b # bs) = (a = b \<and> starts_with as bs)"

fun contains :: "string \<Rightarrow> string \<Rightarrow> bool" where
  "contains sub [] = (sub = [])"
| "contains sub (x # xs) = (starts_with sub (x # xs) \<or> contains sub xs)"

text \<open>\<^verbatim>\<open>str(n)\<close> for a natural number.\<close>

definition digit_char :: "nat \<Rightarrow> char" where
  "digit_char d = ''0123456789'' ! d"

fun str_nat :: "nat \<Rightarrow> string" where
  "str_nat n = (if n < 10 then [digit_char n] else str_nat (n div 10) @ [digit_char (n mod 10)])"

declare str_nat.simps [simp del]

definition nl :: string where
  "nl = [CHR 0x0A]"

section \<open>Path table, collaborators and the trace of a run\<close>

text \<open>
  A dictionary from names to paths keeps its insertion order: an association list with
  distinct keys. The path table is the dictionary with the keys \<^verbatim>\<open>'core'\<close>, \<^verbatim>\<open>'mod'\<close> and
  \<^verbatim>\<open>'ext'\<close>.
\<close>

type_synonym dict = "(string \<times> string) list"

definition dict_keys :: "dict \<Rightarrow> string list" where
  "dict_keys d = map fst d"

definition dict_values :: "dict \<Rightarrow> string list" where
  "dict_values d = map snd d"

text \<open>\<^verbatim>\<open>d.pop(k, None)\<close>, keeping the dictionary only.\<close>

definition dict_pop :: "string \<Rightarrow> dict \<Rightarrow> dict" where
  "dict_pop k d = filter (\<lambda>kv. fst kv \<noteq> k) d"

text \<open>Truthiness of a dictionary: the empty one is falsy.\<close>

fun truthy_dict :: "dict \<Rightarrow> bool" where
  "truthy_dict [] = False"
| "truthy_dict (kv # d) = True"

record path_table =
  core_d :: dict
  mod_d :: dict
  ext_d :: dict

text \<open>
  What a run does to the outside, in order: the texts it displays and logs, and its calls
  of the collaborators with their arguments. \<open>PyCmd command message env\<close> is the call
  \<^verbatim>\<open>py_cmd(command, message=message, env=env)\<close>, the only place where the module starts a
  subprocess. What a collaborator does inside its call is not part of the trace.
\<close>

datatype event =
    Heading string
  | Display string
  | LogError string
  | LogDebug string
  | GetPathTable "string list option"
  | RequireAzureCli
  | FilterByGitDiff path_table "string option" "string option" "string option"
  | PyCmd string string "dict option"

fun is_subprocess :: "event \<Rightarrow> bool" where
  "is_subprocess (PyCmd c m e) = True"
| "is_subprocess ev = False"

text \<open>
  The collaborators imported from \<^verbatim>\<open>azdev.utilities\<close> and the standard library are not
  part of the module; a run takes them as parameters. \<open>'w\<close> is the state of the outside
  world (file system, installed tools), which a subprocess may change.
  \<^item> \<open>require_azure_cli\<close> is \<open>None\<close> when the call returns and \<open>Some e\<close> when it raises \<open>e\<close>;
  \<^item> \<open>get_azdev_config section option\<close> is the call
    \<^verbatim>\<open>get_azdev_config().get(section, option)\<close>: \<open>Inr\<close> the stored text, or \<open>Inl\<close> the
    exception of the store. The call gives no fallback, so the store of knack raises
    \<^verbatim>\<open>NoSectionError\<close> or \<^verbatim>\<open>NoOptionError\<close> when nothing is stored;
  \<^item> \<open>py_cmd w command env\<close> runs the command and returns its command result and the
    new world;
  \<^item> \<open>os_path_join\<close>, \<open>os_path_split\<close> and \<open>os_path_normcase\<close> are the functions of
    \<^verbatim>\<open>os.path\<close> of the platform.
\<close>

record 'w collaborators =
  get_path_table :: "string list option \<Rightarrow> path_table"
  filter_by_git_diff ::
    "path_table \<Rightarrow> string option \<Rightarrow> string option \<Rightarrow> string option \<Rightarrow> path_table"
  require_azure_cli :: "exn option"
  py_cmd :: "'w \<Rightarrow> string \<Rightarrow> dict option \<Rightarrow> command_result \<times> 'w"
  get_azdev_config :: "string \<Rightarrow> string \<Rightarrow> exn + string"
  get_azdev_config_dir :: string
  EXTENSION_PREFIX :: string
  glob :: "'w \<Rightarrow> string \<Rightarrow> string list"
  cpu_count :: nat
  os_path_join :: "string list \<Rightarrow> string"
  os_path_split :: "string \<Rightarrow> string \<times> string"
  os_path_normcase :: "string \<Rightarrow> string"

section \<open>Config resolver\<close>

definition config_file_mapping :: "string \<rightharpoonup> string" where
  "config_file_mapping = map_of [(''pylint'', ''pylintrc''), (''flake8'', ''.flake8'')]"

definition default_config_file_mapping :: "string \<Rightarrow> string \<rightharpoonup> string" where
  "default_config_file_mapping grp =
     (if grp = ''cli'' then map_of [(''pylint'', ''cli_pylintrc''), (''flake8'', ''cli.flake8'')]
      else map_of [(''pylint'', ''ext_pylintrc''), (''flake8'', ''ext.flake8'')])"

text \<open>
  \<^verbatim>\<open>_config_file_path(style_type)\<close>. The two lookups of the settings store come first
  (lines 195 and 199) and an exception of either leaves the function before the
  identifier is tested. \<open>ext_repo_path\<close> is the first field of the stored \<^verbatim>\<open>repo_paths\<close>
  that contains \<^verbatim>\<open>azure-cli-extension\<close>; when there is none the source takes the (falsy)
  empty list, here \<open>None\<close>; the test \<^verbatim>\<open>if ext_repo_path\<close> is the truthiness of that
  optional text. A dictionary lookup of a missing key raises \<^verbatim>\<open>KeyError\<close>.
\<close>

definition config_file_path :: "'w collaborators \<Rightarrow> string \<Rightarrow> exn + (string \<times> string)" where
  "config_file_path K style_type =
     (case get_azdev_config K ''cli'' ''repo_path'' of
        Inl e \<Rightarrow> Inl e
      | Inr cli_repo_path \<Rightarrow>
          (case get_azdev_config K ''ext'' ''repo_paths'' of
             Inl e \<Rightarrow> Inl e
           | Inr repo_paths \<Rightarrow>
               (let ext_repo_path = find (\<lambda>x. contains ''azure-cli-extension'' x)
                                      (split_ws repo_paths)
                in if style_type \<notin> set [''pylint'', ''flake8'']
                   then Inl (ValueError ''style_tyle value allows only: pylint, flake8.'')
                   else
                     (case (config_file_mapping style_type,
                            default_config_file_mapping ''cli'' style_type,
                            default_config_file_mapping ''ext'' style_type) of
                        (Some name, Some cli_default, Some ext_default) \<Rightarrow>
                          Inr (if cli_repo_path \<noteq> []
                               then os_path_join K [cli_repo_path, name]
                               else os_path_join K
                                      [get_azdev_config_dir K, ''config_files'', cli_default],
                               if truthy_text ext_repo_path
                               then os_path_join K
                                      [case ext_repo_path of Some p \<Rightarrow> p | None \<Rightarrow> [], name]
                               else os_path_join K
                                      [get_azdev_config_dir K, ''config_files'', ext_default])
                      | _ \<Rightarrow> Inl (KeyError style_type)))))"

section \<open>Linter invoker\<close>

text \<open>The nested \<^verbatim>\<open>get_core_module_paths\<close>: each core path is extended by the fields of
  its last component, split at hyphens.\<close>

definition get_core_module_paths :: "'w collaborators \<Rightarrow> path_table \<Rightarrow> string list" where
  "get_core_module_paths K modules =
     map (\<lambda>p. foldl (\<lambda>q x. os_path_join K [q, x]) p (split_on CHR ''-'' (snd (os_path_split K p))))
       (dict_values (core_d modules))"

text \<open>The loop that fills \<^verbatim>\<open>ext_paths\<close>: \<^verbatim>\<open>glob(...)[0]\<close> raises \<^verbatim>\<open>IndexError\<close> when the
  glob has no match.\<close>

definition ext_glob_pattern :: "'w collaborators \<Rightarrow> string \<Rightarrow> string" where
  "ext_glob_pattern K path =
     os_path_join K [path, os_path_normcase K (os_path_join K [EXTENSION_PREFIX K @ ''*''])]"

fun ext_glob_paths :: "'w collaborators \<Rightarrow> 'w \<Rightarrow> string list \<Rightarrow> exn + string list" where
  "ext_glob_paths K w [] = Inr []"
| "ext_glob_paths K w (path # rest) =
     (case glob K w (ext_glob_pattern K path) of
        [] \<Rightarrow> Inl IndexError
      | m # ms \<Rightarrow>
          (case ext_glob_paths K w rest of
             Inl e \<Rightarrow> Inl e
           | Inr found \<Rightarrow> Inr (m # found)))"

text \<open>The nested \<^verbatim>\<open>run\<close> of \<^verbatim>\<open>run_pylint\<close>: trace, new world and the result, \<open>None\<close> when
  there is no path.\<close>

definition pylint_run ::
  "'w collaborators \<Rightarrow> 'w \<Rightarrow> string list \<Rightarrow> string \<Rightarrow> string \<Rightarrow> string list option \<Rightarrow>
   dict option \<Rightarrow> bool \<Rightarrow> string list option \<Rightarrow> event list \<times> 'w \<times> command_result option" where
  "pylint_run K w paths rcfile desc checkers env disable_all enable =
     (if paths = [] then ([], w, None)
      else
        let command = ''pylint '' @ join_str '' '' paths @ '' --rcfile='' @ rcfile @
                      '' --jobs '' @ str_nat (cpu_count K) @
                      (case checkers of None \<Rightarrow> [] | Some cs \<Rightarrow> '' --load-plugins '' @ join_str '','' cs) @
                      (if disable_all then '' --disable=all'' else []) @
                      (case enable of None \<Rightarrow> [] | Some en \<Rightarrow> '' --enable '' @ join_str '','' en)
        in ([LogDebug (''Using rcfile file: '' @ rcfile),
             LogDebug (''Running on '' @ desc @ '': '' @ join_str nl paths),
             PyCmd command (''Running pylint on '' @ desc @ ''...'') env],
            snd (py_cmd K w command env), Some (fst (py_cmd K w command env))))"

definition run_pylint ::
  "'w collaborators \<Rightarrow> 'w \<Rightarrow> path_table \<Rightarrow> string list option \<Rightarrow> dict option \<Rightarrow> bool \<Rightarrow>
   string list option \<Rightarrow> event list \<times> 'w \<times> (exn + command_result)" where
  "run_pylint K w modules checkers env disable_all enable =
     (case ext_glob_paths K w (dict_values (ext_d modules)) of
        Inl e \<Rightarrow> ([], w, Inl e)
      | Inr ext_paths \<Rightarrow>
          (case config_file_path K ''pylint'' of
             Inl e \<Rightarrow> ([], w, Inl e)
           | Inr (cli_pylintrc, ext_pylintrc) \<Rightarrow>
               (case pylint_run K w (get_core_module_paths K modules @ dict_values (mod_d modules))
                       cli_pylintrc ''modules'' checkers env disable_all enable of
                  (tr1, w1, cli_result) \<Rightarrow>
                    (case pylint_run K w1 ext_paths ext_pylintrc ''extensions''
                            checkers env disable_all enable of
                       (tr2, w2, ext_result) \<Rightarrow>
                         (tr1 @ tr2, w2, combine_command_result cli_result ext_result)))))"

section \<open>Style invoker\<close>

text \<open>The nested \<^verbatim>\<open>run\<close> of \<^verbatim>\<open>_run_pep8\<close>.\<close>

definition pep8_run ::
  "'w collaborators \<Rightarrow> 'w \<Rightarrow> string list \<Rightarrow> string \<Rightarrow> string \<Rightarrow>
   event list \<times> 'w \<times> command_result option" where
  "pep8_run K w paths rcfile desc =
     (if paths = [] then ([], w, None)
      else
        let command = ''flake8 --statistics --append-config='' @ rcfile @ '' '' @ join_str '' '' paths
        in ([LogDebug (''Using config file: '' @ rcfile),
             LogDebug (''Running on '' @ desc @ '':'' @ nl @ join_str nl paths),
             PyCmd command (''Running flake8 on '' @ desc @ ''...'') None],
            snd (py_cmd K w command None), Some (fst (py_cmd K w command None))))"

definition run_pep8 ::
  "'w collaborators \<Rightarrow> 'w \<Rightarrow> path_table \<Rightarrow> event list \<times> 'w \<times> (exn + command_result)" where
  "run_pep8 K w modules =
     (case config_file_path K ''flake8'' of
        Inl e \<Rightarrow> ([], w, Inl e)
      | Inr (cli_config, ext_config) \<Rightarrow>
          (case pep8_run K w (dict_values (core_d modules) @ dict_values (mod_d modules))
                  cli_config ''modules'' of
             (tr1, w1, cli_result) \<Rightarrow>
               (case pep8_run K w1 (dict_values (ext_d modules)) ext_config ''extensions'' of
                  (tr2, w2, ext_result) \<Rightarrow>
                    (tr1 @ tr2, w2, combine_command_result cli_result ext_result))))"

section \<open>Top-level orchestrator\<close>

text \<open>
  Lines 78 to 87 of \<^verbatim>\<open>check_style\<close>: the linter and its report. The value returned on
  the right is what the block adds to \<^verbatim>\<open>exit_code_sum\<close>.
  \<^verbatim>\<open>
    if pylint:
        pylint_result = run_pylint(selected_modules)
        exit_code_sum += pylint_result.exit_code

        if pylint_result.error:
            display('Pylint: PASSED')
            logger.error(pylint_result.error.output.decode('utf-8'))
            logger.error('Pylint: FAILED\n')
        else:
            display('Pylint: PASSED\n')
  \<close>
\<close>

definition pylint_stage ::
  "'w collaborators \<Rightarrow> 'w \<Rightarrow> path_table \<Rightarrow> bool \<Rightarrow> event list \<times> 'w \<times> (exn + int)" where
  "pylint_stage K w selected_modules pylint =
     (if pylint then
        (case run_pylint K w selected_modules None None False None of
           (tr, w1, Inl e) \<Rightarrow> (tr, w1, Inl e)
         | (tr, w1, Inr pylint_result) \<Rightarrow>
             (tr @ (case error pylint_result of
                      Some e \<Rightarrow> [Display ''Pylint: PASSED'',
                                 LogError (output_bytes e),
                                 LogError (''Pylint: FAILED'' @ nl)]
                    | None \<Rightarrow> [Display (''Pylint: PASSED'' @ nl)]),
              w1, Inr (exit_code pylint_result)))
      else ([], w, Inr 0))"

text \<open>
  Lines 89 to 97: the style checker and its report.
  \<^verbatim>\<open>
    if pep8:
        pep8_result = _run_pep8(selected_modules)
        exit_code_sum += pep8_result.exit_code

        if pep8_result.error:
            logger.error(pep8_result.error.output.decode('utf-8'))
            logger.error('Flake8: FAILED\n')
        else:
            display('Flake8: PASSED\n')
  \<close>
\<close>

definition pep8_stage ::
  "'w collaborators \<Rightarrow> 'w \<Rightarrow> path_table \<Rightarrow> bool \<Rightarrow> event list \<times> 'w \<times> (exn + int)" where
  "pep8_stage K w selected_modules pep8 =
     (if pep8 then
        (case run_pep8 K w selected_modules of
           (tr, w1, Inl e) \<Rightarrow> (tr, w1, Inl e)
         | (tr, w1, Inr pep8_result) \<Rightarrow>
             (tr @ (case error pep8_result of
                      Some e \<Rightarrow> [LogError (output_bytes e),
                                 LogError (''Flake8: FAILED'' @ nl)]
                    | None \<Rightarrow> [Display (''Flake8: PASSED'' @ nl)]),
              w1, Inr (exit_code pep8_result)))
      else ([], w, Inr 0))"

text \<open>
  Lines 63 to 99: the names are displayed, the flags are defaulted, the two blocks run
  and \<^verbatim>\<open>sys.exit(exit_code_sum)\<close> ends the run.
\<close>

definition run_checks ::
  "'w collaborators \<Rightarrow> 'w \<Rightarrow> path_table \<Rightarrow> bool \<Rightarrow> bool \<Rightarrow> event list \<times> 'w \<times> exn" where
  "run_checks K w selected_modules pylint pep8 =
     (let mod_names = dict_keys (mod_d selected_modules) @ dict_keys (core_d selected_modules);
          ext_names = dict_keys (ext_d selected_modules);
          tr0 = (if mod_names \<noteq> []
                 then [Display (''Modules: '' @ join_str '', '' mod_names @ nl)] else []) @
                (if ext_names \<noteq> []
                 then [Display (''Extensions: '' @ join_str '', '' ext_names @ nl)] else []);
          pep8_on = (if \<not> (pylint \<or> pep8) then True else pep8);
          pylint_on = (if \<not> (pylint \<or> pep8) then True else pylint)
      in case pylint_stage K w selected_modules pylint_on of
           (tr1, w1, Inl e) \<Rightarrow> (tr0 @ tr1, w1, e)
         | (tr1, w1, Inr code1) \<Rightarrow>
             (case pep8_stage K w1 selected_modules pep8_on of
                (tr2, w2, Inl e) \<Rightarrow> (tr0 @ tr1 @ tr2, w2, e)
              | (tr2, w2, Inr code2) \<Rightarrow> (tr0 @ tr1 @ tr2, w2, SystemExit (0 + code1 + code2))))"

text \<open>
  \<^verbatim>\<open>check_style\<close>, lines 24 to 61, followed by \<open>run_checks\<close>. The run always ends with an
  exception: a usage error, an exception of a callee, or \<open>SystemExit\<close>. The result is the
  trace, the final world and that exception.
\<close>

definition check_style ::
  "'w collaborators \<Rightarrow> 'w \<Rightarrow> string list option \<Rightarrow> bool \<Rightarrow> bool \<Rightarrow>
   string option \<Rightarrow> string option \<Rightarrow> string option \<Rightarrow> event list \<times> 'w \<times> exn" where
  "check_style K w modules pylint pep8 git_source git_target git_repo =
     (let cli_only = (modules = Some [''CLI'']);
          ext_only = (modules = Some [''EXT'']);
          include_only = (if cli_only \<or> ext_only then None else modules);
          t0 = get_path_table K include_only;
          t1 = t0\<lparr>core_d := dict_pop ''azure-cli-nspkg'' (core_d t0)\<rparr>;
          t2 = t1\<lparr>core_d := dict_pop ''azure-cli-command_modules-nspkg'' (core_d t1)\<rparr>;
          tr0 = [Heading ''Style Check'', GetPathTable include_only]
      in case (if pylint then require_azure_cli K else None) of
           Some (CLIError m) \<Rightarrow>
             (tr0 @ [RequireAzureCli], w,
              CLIError ''usage error: --pylint requires Azure CLI to be installed.'')
         | Some e \<Rightarrow> (tr0 @ [RequireAzureCli], w, e)
         | None \<Rightarrow>
             let tr1 = tr0 @ (if pylint then [RequireAzureCli] else []);
                 t3 = (if cli_only then t2\<lparr>ext_d := []\<rparr> else t2);
                 t4 = (if ext_only then t3\<lparr>mod_d := [], core_d := []\<rparr> else t3);
                 t5 = filter_by_git_diff K t4 git_source git_target git_repo;
                 tr2 = tr1 @ [FilterByGitDiff t4 git_source git_target git_repo]
             in if \<not> (truthy_dict (core_d t5) \<or> truthy_dict (mod_d t5) \<or> truthy_dict (ext_d t5))
                then (tr2, w, CLIError ''No modules selected.'')
                else (case run_checks K w t5 pylint pep8 of
                        (tr3, w3, e) \<Rightarrow> (tr2 @ tr3, w3, e)))"

section \<open>Notions used in the statements\<close>

text \<open>The event of handing a path table to the git-diff filter.\<close>

fun is_filter_call :: "event \<Rightarrow> bool" where
  "is_filter_call (FilterByGitDiff t a b c) = True"
| "is_filter_call ev = False"

text \<open>The value of \<^verbatim>\<open>selected_modules\<close> when line 58 of \<^verbatim>\<open>check_style\<close> is reached.\<close>

definition handed_to_filter :: "'w collaborators \<Rightarrow> string list option \<Rightarrow> path_table" where
  "handed_to_filter K modules =
     (let cli_only = (modules = Some [''CLI'']);
          ext_only = (modules = Some [''EXT'']);
          include_only = (if cli_only \<or> ext_only then None else modules);
          t0 = get_path_table K include_only;
          t1 = t0\<lparr>core_d := dict_pop ''azure-cli-nspkg'' (core_d t0)\<rparr>;
          t2 = t1\<lparr>core_d := dict_pop ''azure-cli-command_modules-nspkg'' (core_d t1)\<rparr>;
          t3 = (if cli_only then t2\<lparr>ext_d := []\<rparr> else t2)
      in (if ext_only then t3\<lparr>mod_d := [], core_d := []\<rparr> else t3))"

text \<open>The trace of lines 24 to 47 when they raise nothing, or raise in line 47.\<close>

definition preflight_trace :: "string list option \<Rightarrow> bool \<Rightarrow> event list" where
  "preflight_trace modules pylint =
     [Heading ''Style Check'',
      GetPathTable (if modules = Some [''CLI''] \<or> modules = Some [''EXT''] then None else modules)] @
     (if pylint then [RequireAzureCli] else [])"

section \<open>A concrete set of collaborators\<close>

text \<open>
  One repository with a core package, a command module and an extension, on a platform
  whose paths are joined by a slash. The world is the number of subprocesses run so far.
  Every tool passes; \<open>failed\<close> is the result of a tool that found an issue.
\<close>

definition demo_table :: path_table where
  "demo_table =
     \<lparr>core_d = [(''azure-cli-nspkg'', ''/cli/src/azure-cli-nspkg''),
                (''azure-cli-core'', ''/cli/src/azure-cli-core'')],
      mod_d = [(''vm'', ''/cli/src/command_modules/azure-cli-vm'')],
      ext_d = [(''myext'', ''/exts/src/myext'')]\<rparr>"

definition passed :: command_result where
  "passed = \<lparr>exit_code = 0, error = None, result = Some (Str [])\<rparr>"

definition failed :: command_result where
  "failed =
     \<lparr>exit_code = 2,
      error = Some \<lparr>message = None, output_bytes = ''E0001: syntax-error'',
                    str_conv = ''Command returned non-zero exit status 2.''\<rparr>,
      result = Some (Bytes ''E0001: syntax-error'')\<rparr>"

definition demo :: "nat collaborators" where
  "demo =
     \<lparr>get_path_table = (\<lambda>include_only. demo_table),
      filter_by_git_diff = (\<lambda>t git_source git_target git_repo.
         if git_source = None \<and> git_target = None \<and> git_repo = None then t
         else \<lparr>core_d = [], mod_d = [], ext_d = []\<rparr>),
      require_azure_cli = None,
      py_cmd = (\<lambda>w command env. (passed, Suc w)),
      get_azdev_config = (\<lambda>section option.
         Inr (if section = ''cli'' then ''/cli'' else ''/other /exts/azure-cli-extensions'')),
      get_azdev_config_dir = ''/home/dev/.azdev'',
      EXTENSION_PREFIX = ''azext_'',
      glob = (\<lambda>w pattern.
         if pattern = ''/exts/src/myext/azext_*'' then [''/exts/src/myext/azext_myext''] else []),
      cpu_count = 4,
      os_path_join = join_str ''/'',
      os_path_split = (\<lambda>p. (join_str ''/'' (butlast (split_on CHR ''/'' p)),
                             last (split_on CHR ''/'' p))),
      os_path_normcase = (\<lambda>p. p)\<rparr>"

text \<open>The same collaborators with a linter that finds an issue.\<close>

definition demo_lint_fails :: "nat collaborators" where
  "demo_lint_fails =
     demo\<lparr>py_cmd := (\<lambda>w command env.
       (if starts_with ''pylint'' command then failed else passed, Suc w))\<rparr>"

text \<open>The same collaborators on a machine without Azure CLI.\<close>

definition demo_no_cli :: "nat collaborators" where
  "demo_no_cli = demo\<lparr>require_azure_cli := Some (CLIError ''Azure CLI is not installed.'')\<rparr>"

text \<open>The same collaborators with a settings store in which nothing is stored.\<close>

definition demo_unset :: "nat collaborators" where
  "demo_unset = demo\<lparr>get_azdev_config := (\<lambda>section option. Inl (NoSectionError section))\<rparr>"

text \<open>The same collaborators with a settings store that holds an empty core path and no
  path of the extensions repository.\<close>

definition demo_blank :: "nat collaborators" where
  "demo_blank = demo\<lparr>get_azdev_config := (\<lambda>section option.
     Inr (if section = ''cli'' then [] else ''/home/dev/my-extensions''))\<rparr>"

text \<open>A linter run that passes and prints its rating, as the subprocess runner returns
  it.\<close>

definition rated :: command_result where
  "rated = \<lparr>exit_code = 0, error = None, result = Some (Str ''Your code has been rated at 10.00/10'')\<rparr>"


section \<open>Lemmas: the result combiner\<close>

lemmas demo_defs = demo_def demo_table_def passed_def failed_def demo_lint_fails_def
  demo_no_cli_def demo_unset_def demo_blank_def rated_def

lemmas model_defs = check_style_def run_checks_def pylint_stage_def pep8_stage_def run_pylint_def
  run_pep8_def pylint_run_def pep8_run_def config_file_path_def config_file_mapping_def
  default_config_file_mapping_def get_core_module_paths_def ext_glob_pattern_def
  combine_command_result_def apply_result_def apply_error_def apply_text_def CommandResultItem_def
  dict_keys_def dict_values_def dict_pop_def split_ws_def is_space_def nl_def digit_char_def
  str_nat.simps Let_def

lemma pytext_add_raises: "pytext_add a b = Inl e \<Longrightarrow> e = TypeError"
  by (cases a; cases b) auto

lemma apply_text_keeps:
  "apply_text f t = Inr g \<Longrightarrow> exit_code g = exit_code f \<and> error g = error f"
  by (auto simp: apply_text_def split: if_splits option.splits sum.splits)

lemma apply_text_raises: "apply_text f t = Inl e \<Longrightarrow> e = TypeError"
  by (auto simp: apply_text_def split: if_splits option.splits sum.splits
      dest: pytext_add_raises)

lemma apply_text_falsy: "\<not> truthy_result t \<Longrightarrow> apply_text f t = Inr f"
  by (simp add: apply_text_def)

lemma apply_text_first:
  "result f = None \<Longrightarrow> apply_text f t = Inr (if truthy_result t then f\<lparr>result := t\<rparr> else f)"
  by (simp add: apply_text_def)

lemma apply_result_first:
  "\<exists>g. apply_result (CommandResultItem None) a = Inr g \<and>
       (\<forall>fe. error g = Some fe \<longrightarrow> message fe \<noteq> None) \<and>
       exit_code g = (case a of None \<Rightarrow> 0 | Some x \<Rightarrow> exit_code x)"
  by (cases a)
    (auto simp: apply_result_def apply_error_def apply_text_first CommandResultItem_def
      split: option.splits)

lemma apply_result_raises:
  assumes "\<forall>fe. error f = Some fe \<longrightarrow> message fe \<noteq> None"
    and "apply_result f b = Inl e"
  shows "e = TypeError"
proof (cases b)
  case None
  with assms show ?thesis by (simp add: apply_result_def)
next
  case (Some it)
  show ?thesis
  proof (cases "error it")
    case None
    with Some assms(2) show ?thesis
      by (auto simp: apply_result_def dest: apply_text_raises)
  next
    case (Some ie)
    with \<open>b = Some it\<close> assms show ?thesis
      by (auto simp: apply_result_def apply_error_def split: option.splits sum.splits
          dest: apply_text_raises)
  qed
qed

lemma combine_raises_type_error_only:
  "combine_command_result a b = Inl e \<Longrightarrow> e = TypeError"
proof -
  assume r: "combine_command_result a b = Inl e"
  obtain g where g: "apply_result (CommandResultItem None) a = Inr g"
    "\<forall>fe. error g = Some fe \<longrightarrow> message fe \<noteq> None"
    using apply_result_first[of a] by blast
  from r g(1) have "apply_result g b = Inl e"
    by (simp add: combine_command_result_def)
  with g(2) show ?thesis by (rule apply_result_raises)
qed

lemma apply_result_exit_code:
  "apply_result f (Some b) = Inr c \<Longrightarrow> exit_code c = exit_code f + exit_code b"
  by (auto simp: apply_result_def apply_error_def split: option.splits sum.splits
      dest: apply_text_keeps)

lemma combine_exit_code_sum:
  assumes "combine_command_result (Some a) (Some b) = Inr c"
  shows "exit_code c = exit_code a + exit_code b"
proof -
  obtain g where g: "apply_result (CommandResultItem None) (Some a) = Inr g"
    "exit_code g = exit_code a"
    using apply_result_first[of "Some a"] by auto
  from assms g(1) have "apply_result g (Some b) = Inr c"
    by (simp add: combine_command_result_def)
  from apply_result_exit_code[OF this] g(2) show ?thesis by simp
qed

lemma combine_two_errors:
  assumes "error a = Some ea" and "error b = Some eb"
    and "combine_command_result (Some a) (Some b) = Inr c"
  shows "error c =
           Some (ea\<lparr>message := Some (case message eb of Some m \<Rightarrow> m | None \<Rightarrow> str_conv eb)\<rparr>)"
  using assms
  by (auto simp: combine_command_result_def apply_result_def apply_error_def apply_text_first
      CommandResultItem_def split: option.splits sum.splits if_splits dest!: apply_text_keeps)




section \<open>Claims on the result combiner\<close>

text \<open>
  C5. Evaluation of the combiner on the result of a linter run that passes and prints
  its rating (a \<^verbatim>\<open>str\<close>) and the result of a run that fails (the raw output, a
  \<^verbatim>\<open>bytes\<close>), in both orders: line 120 raises \<^verbatim>\<open>TypeError\<close> and no result is returned.
\<close>

theorem combine_raises_on_str_and_bytes:
  "combine_command_result (Some rated) (Some failed) = Inl TypeError \<and>
   combine_command_result (Some failed) (Some rated) = Inl TypeError"
  by (simp add: combine_command_result_def apply_result_def apply_error_def apply_text_def
      CommandResultItem_def rated_def failed_def)

text \<open>
  C2. Evaluation of the combiner on two results that both carry an error. The message of
  the returned error is the text of the second error only: the text of the first
  (\<open>A\<close>, or its string conversion \<open>E1\<close> when it has no message) is not part of it.
\<close>

theorem combine_drops_first_error_text:
  "combine_command_result
     (Some \<lparr>exit_code = 1,
            error = Some \<lparr>message = Some ''A'', output_bytes = ''out1'', str_conv = ''E1''\<rparr>,
            result = None\<rparr>)
     (Some \<lparr>exit_code = 1,
            error = Some \<lparr>message = Some ''B'', output_bytes = ''out2'', str_conv = ''E2''\<rparr>,
            result = None\<rparr>) =
   Inr \<lparr>exit_code = 2,
        error = Some \<lparr>message = Some ''B'', output_bytes = ''out1'', str_conv = ''E1''\<rparr>,
        result = None\<rparr> \<and>
   combine_command_result
     (Some \<lparr>exit_code = 1,
            error = Some \<lparr>message = None, output_bytes = ''out1'', str_conv = ''E1''\<rparr>,
            result = None\<rparr>)
     (Some \<lparr>exit_code = 1,
            error = Some \<lparr>message = None, output_bytes = ''out2'', str_conv = ''E2''\<rparr>,
            result = None\<rparr>) =
   Inr \<lparr>exit_code = 2,
        error = Some \<lparr>message = Some ''E2'', output_bytes = ''out1'', str_conv = ''E1''\<rparr>,
        result = None\<rparr>"
  by (simp add: combine_command_result_def apply_result_def apply_error_def apply_text_def
      CommandResultItem_def)

section \<open>Lemmas: config resolver and invokers\<close>

lemma contains_nonempty: "contains sub s \<Longrightarrow> sub \<noteq> [] \<Longrightarrow> s \<noteq> []"
  by (cases s) auto

lemma find_contains_truthy:
  "truthy_text (find (\<lambda>x. contains ''azure-cli-extension'' x) xs) \<longleftrightarrow>
   find (\<lambda>x. contains ''azure-cli-extension'' x) xs \<noteq> None"
proof (cases "find (\<lambda>x. contains ''azure-cli-extension'' x) xs")
  case None
  then show ?thesis by simp
next
  case (Some p)
  then have "contains ''azure-cli-extension'' p" by (auto simp: find_Some_iff)
  then have "p \<noteq> []" by (rule contains_nonempty) simp
  with Some show ?thesis by simp
qed

lemma config_file_path_pylint:
  assumes "get_azdev_config K ''cli'' ''repo_path'' = Inr cli_repo_path"
    and "get_azdev_config K ''ext'' ''repo_paths'' = Inr repo_paths"
  shows "config_file_path K ''pylint'' =
     Inr (if cli_repo_path \<noteq> []
          then os_path_join K [cli_repo_path, ''pylintrc'']
          else os_path_join K [get_azdev_config_dir K, ''config_files'', ''cli_pylintrc''],
          case find (\<lambda>x. contains ''azure-cli-extension'' x) (split_ws repo_paths) of
            Some p \<Rightarrow> os_path_join K [p, ''pylintrc'']
          | None \<Rightarrow> os_path_join K [get_azdev_config_dir K, ''config_files'', ''ext_pylintrc''])"
  using assms
  by (simp add: config_file_path_def config_file_mapping_def default_config_file_mapping_def
      Let_def find_contains_truthy split: option.splits)

lemma config_file_path_flake8:
  assumes "get_azdev_config K ''cli'' ''repo_path'' = Inr cli_repo_path"
    and "get_azdev_config K ''ext'' ''repo_paths'' = Inr repo_paths"
  shows "config_file_path K ''flake8'' =
     Inr (if cli_repo_path \<noteq> []
          then os_path_join K [cli_repo_path, ''.flake8'']
          else os_path_join K [get_azdev_config_dir K, ''config_files'', ''cli.flake8''],
          case find (\<lambda>x. contains ''azure-cli-extension'' x) (split_ws repo_paths) of
            Some p \<Rightarrow> os_path_join K [p, ''.flake8'']
          | None \<Rightarrow> os_path_join K [get_azdev_config_dir K, ''config_files'', ''ext.flake8''])"
  using assms
  by (simp add: config_file_path_def config_file_mapping_def default_config_file_mapping_def
      Let_def find_contains_truthy split: option.splits)

lemma config_file_path_unsupported:
  assumes "get_azdev_config K ''cli'' ''repo_path'' = Inr cli_repo_path"
    and "get_azdev_config K ''ext'' ''repo_paths'' = Inr repo_paths"
    and "style_type \<noteq> ''pylint''" and "style_type \<noteq> ''flake8''"
  shows "config_file_path K style_type =
           Inl (ValueError ''style_tyle value allows only: pylint, flake8.'')"
  using assms by (simp add: config_file_path_def Let_def)

lemma config_file_path_cli_lookup_raises:
  "get_azdev_config K ''cli'' ''repo_path'' = Inl e \<Longrightarrow> config_file_path K style_type = Inl e"
  by (simp add: config_file_path_def)

lemma config_file_path_ext_lookup_raises:
  "get_azdev_config K ''cli'' ''repo_path'' = Inr cli_repo_path \<Longrightarrow>
   get_azdev_config K ''ext'' ''repo_paths'' = Inl e \<Longrightarrow>
   config_file_path K style_type = Inl e"
  by (simp add: config_file_path_def)

lemma ext_glob_paths_fails:
  "p \<in> set ps \<Longrightarrow> glob K w (ext_glob_pattern K p) = [] \<Longrightarrow>
   ext_glob_paths K w ps = Inl IndexError"
  by (induction ps) (auto split: list.splits sum.splits)

lemma ext_glob_paths_returns:
  "\<forall>p \<in> set ps. glob K w (ext_glob_pattern K p) \<noteq> [] \<Longrightarrow>
   ext_glob_paths K w ps = Inr (map (\<lambda>p. hd (glob K w (ext_glob_pattern K p))) ps)"
  by (induction ps) (auto split: list.splits sum.splits)

lemma ext_glob_paths_returned:
  assumes "ext_glob_paths K w ps = Inr found"
  shows "(\<forall>p \<in> set ps. glob K w (ext_glob_pattern K p) \<noteq> []) \<and> length found = length ps"
proof -
  have all: "\<forall>p \<in> set ps. glob K w (ext_glob_pattern K p) \<noteq> []"
  proof (rule ccontr)
    assume "\<not> (\<forall>p \<in> set ps. glob K w (ext_glob_pattern K p) \<noteq> [])"
    then obtain p where "p \<in> set ps" "glob K w (ext_glob_pattern K p) = []" by auto
    then have "ext_glob_paths K w ps = Inl IndexError" by (rule ext_glob_paths_fails)
    with assms show False by simp
  qed
  from ext_glob_paths_returns[OF all] assms show ?thesis using all by auto
qed

lemma pylint_run_count:
  "length (filter is_subprocess (fst (pylint_run K w paths rc desc ch env da en))) =
     (if paths = [] then 0 else 1)"
  by (simp add: pylint_run_def Let_def)



lemma run_pylint_fails:
  assumes "\<exists>p \<in> set (dict_values (ext_d modules)). glob K w (ext_glob_pattern K p) = []"
  shows "run_pylint K w modules ch env da en = ([], w, Inl IndexError)"
proof -
  from assms obtain p where "p \<in> set (dict_values (ext_d modules))"
    "glob K w (ext_glob_pattern K p) = []" by auto
  then have "ext_glob_paths K w (dict_values (ext_d modules)) = Inl IndexError"
    by (rule ext_glob_paths_fails)
  then show ?thesis by (simp add: run_pylint_def)
qed

lemma run_pylint_returned:
  assumes "run_pylint K w modules ch env da en = (tr, w', Inr c)"
  shows "(\<forall>p \<in> set (dict_values (ext_d modules)). glob K w (ext_glob_pattern K p) \<noteq> []) \<and>
         length (filter is_subprocess tr) =
           (if core_d modules = [] \<and> mod_d modules = [] then 0 else 1) +
           (if ext_d modules = [] then 0 else 1)"
proof (cases "ext_glob_paths K w (dict_values (ext_d modules))")
  case (Inl e)
  with assms show ?thesis by (simp add: run_pylint_def)
next
  case (Inr ext_paths)
  note g = ext_glob_paths_returned[OF Inr]
  show ?thesis
  proof (cases "config_file_path K ''pylint''")
    case (Inl e)
    with assms Inr show ?thesis by (simp add: run_pylint_def)
  next
    case cfg0: (Inr cfg)
    obtain a b where cfg: "config_file_path K ''pylint'' = Inr (a, b)"
      using cfg0 by (cases cfg) auto
    let ?cli = "get_core_module_paths K modules @ dict_values (mod_d modules)"
    obtain tr1 w1 r1 where r1: "pylint_run K w ?cli a ''modules'' ch env da en = (tr1, w1, r1)"
      by (metis prod_cases3)
    obtain tr2 w2 r2 where
      r2: "pylint_run K w1 ext_paths b ''extensions'' ch env da en = (tr2, w2, r2)"
      by (metis prod_cases3)
    from pylint_run_count[of K w ?cli a "''modules''" ch env da en] r1
    have c1: "length (filter is_subprocess tr1) =
        (if core_d modules = [] \<and> mod_d modules = [] then 0 else 1)"
      by (simp add: dict_values_def get_core_module_paths_def)
    from pylint_run_count[of K w1 ext_paths b "''extensions''" ch env da en] r2 g
    have c2: "length (filter is_subprocess tr2) = (if ext_d modules = [] then 0 else 1)"
      by (auto simp: dict_values_def)
    from assms have "tr = tr1 @ tr2"
      by (simp add: run_pylint_def Inr cfg r1 r2)
    with c1 c2 g show ?thesis by simp
  qed
qed

section \<open>Claims on the config resolver and the invokers\<close>

text \<open>
  C7. When both lookups of the settings store return, the resolver returns for \<open>pylint\<close>
  and for \<open>flake8\<close> a pair of paths. The path of the core group is the stored
  \<^verbatim>\<open>cli.repo_path\<close> joined with the file name of the tool (\<open>pylintrc\<close>, \<open>.flake8\<close>) when that
  path is not empty, and otherwise the bundled file (\<open>cli_pylintrc\<close>, \<open>cli.flake8\<close>) under
  \<open>config_files\<close> in the configuration directory. The path of the extension group is the
  same with the first field of \<^verbatim>\<open>ext.repo_paths\<close> that contains \<open>azure-cli-extension\<close>, and
  the bundled files \<open>ext_pylintrc\<close>, \<open>ext.flake8\<close>. Any other identifier then raises
  \<open>ValueError\<close>. When a lookup raises, the resolver raises that exception, whatever the
  identifier.
\<close>

theorem config_file_path_resolves:
  "(get_azdev_config K ''cli'' ''repo_path'' = Inr cli_repo_path \<and>
    get_azdev_config K ''ext'' ''repo_paths'' = Inr repo_paths \<longrightarrow>
      config_file_path K ''pylint'' =
        Inr (if cli_repo_path \<noteq> []
             then os_path_join K [cli_repo_path, ''pylintrc'']
             else os_path_join K [get_azdev_config_dir K, ''config_files'', ''cli_pylintrc''],
             case find (\<lambda>x. contains ''azure-cli-extension'' x) (split_ws repo_paths) of
               Some p \<Rightarrow> os_path_join K [p, ''pylintrc'']
             | None \<Rightarrow> os_path_join K [get_azdev_config_dir K, ''config_files'', ''ext_pylintrc'']) \<and>
      config_file_path K ''flake8'' =
        Inr (if cli_repo_path \<noteq> []
             then os_path_join K [cli_repo_path, ''.flake8'']
             else os_path_join K [get_azdev_config_dir K, ''config_files'', ''cli.flake8''],
             case find (\<lambda>x. contains ''azure-cli-extension'' x) (split_ws repo_paths) of
               Some p \<Rightarrow> os_path_join K [p, ''.flake8'']
             | None \<Rightarrow> os_path_join K [get_azdev_config_dir K, ''config_files'', ''ext.flake8'']) \<and>
      (style_type \<noteq> ''pylint'' \<and> style_type \<noteq> ''flake8'' \<longrightarrow>
         config_file_path K style_type =
           Inl (ValueError ''style_tyle value allows only: pylint, flake8.''))) \<and>
   (get_azdev_config K ''cli'' ''repo_path'' = Inl e \<longrightarrow> config_file_path K style_type = Inl e) \<and>
   (get_azdev_config K ''cli'' ''repo_path'' = Inr cli_repo_path \<and>
    get_azdev_config K ''ext'' ''repo_paths'' = Inl e \<longrightarrow> config_file_path K style_type = Inl e)"
  using config_file_path_pylint[of K cli_repo_path repo_paths]
    config_file_path_flake8[of K cli_repo_path repo_paths]
    config_file_path_unsupported[of K cli_repo_path repo_paths style_type]
    config_file_path_cli_lookup_raises[of K e style_type]
    config_file_path_ext_lookup_raises[of K cli_repo_path e style_type]
  by blast

theorem config_file_path_resolves_witness:
  "config_file_path demo ''pylint'' =
     Inr (''/cli/pylintrc'', ''/exts/azure-cli-extensions/pylintrc'') \<and>
   config_file_path demo_blank ''flake8'' =
     Inr (''/home/dev/.azdev/config_files/cli.flake8'',
          ''/home/dev/.azdev/config_files/ext.flake8'') \<and>
   config_file_path demo ''mypy'' =
     Inl (ValueError ''style_tyle value allows only: pylint, flake8.'') \<and>
   config_file_path demo_unset ''flake8'' = Inl (NoSectionError ''cli'') \<and>
   config_file_path (demo\<lparr>get_azdev_config := (\<lambda>section option.
       if section = ''cli'' then Inr ''/cli'' else Inl (NoOptionError ''ext'' ''repo_paths''))\<rparr>)
     ''flake8'' = Inl (NoOptionError ''ext'' ''repo_paths'')"
proof -
  let ?half = "demo\<lparr>get_azdev_config := (\<lambda>section option.
       if section = ''cli'' then Inr ''/cli'' else Inl (NoOptionError ''ext'' ''repo_paths''))\<rparr>"
  have d: "get_azdev_config demo ''cli'' ''repo_path'' = Inr ''/cli''"
    "get_azdev_config demo ''ext'' ''repo_paths'' = Inr ''/other /exts/azure-cli-extensions''"
    by (simp_all add: demo_def)
  have b: "get_azdev_config demo_blank ''cli'' ''repo_path'' = Inr []"
    "get_azdev_config demo_blank ''ext'' ''repo_paths'' = Inr ''/home/dev/my-extensions''"
    by (simp_all add: demo_blank_def demo_def)
  have u: "get_azdev_config demo_unset ''cli'' ''repo_path'' = Inl (NoSectionError ''cli'')"
    by (simp add: demo_unset_def demo_def)
  have h: "get_azdev_config ?half ''cli'' ''repo_path'' = Inr ''/cli''"
    "get_azdev_config ?half ''ext'' ''repo_paths'' = Inl (NoOptionError ''ext'' ''repo_paths'')"
    by (simp_all add: demo_def)
  have s1: "find (\<lambda>x. contains ''azure-cli-extension'' x)
      (split_ws ''/other /exts/azure-cli-extensions'') = Some ''/exts/azure-cli-extensions''"
    by (simp add: split_ws_def is_space_def)
  have s2: "find (\<lambda>x. contains ''azure-cli-extension'' x)
      (split_ws ''/home/dev/my-extensions'') = None"
    by (simp add: split_ws_def is_space_def)
  from config_file_path_resolves
      [of demo "''/cli''" "''/other /exts/azure-cli-extensions''" "''mypy''"] d
  have a1: "config_file_path demo ''pylint'' =
       Inr (''/cli/pylintrc'', ''/exts/azure-cli-extensions/pylintrc'')"
    and a3: "config_file_path demo ''mypy'' =
       Inl (ValueError ''style_tyle value allows only: pylint, flake8.'')"
    by (simp_all add: s1 demo_def)
  from config_file_path_resolves
      [of demo_blank "[]" "''/home/dev/my-extensions''" "''mypy''"] b
  have a2: "config_file_path demo_blank ''flake8'' =
       Inr (''/home/dev/.azdev/config_files/cli.flake8'',
            ''/home/dev/.azdev/config_files/ext.flake8'')"
    by (simp add: s2 demo_blank_def demo_def)
  from config_file_path_resolves
      [of demo_unset _ _ "''flake8''" "NoSectionError ''cli''"] u
  have a4: "config_file_path demo_unset ''flake8'' = Inl (NoSectionError ''cli'')"
    by blast
  from config_file_path_resolves
      [of ?half "''/cli''" _ "''flake8''" "NoOptionError ''ext'' ''repo_paths''"] h
  have a5: "config_file_path ?half ''flake8'' = Inl (NoOptionError ''ext'' ''repo_paths'')"
    by blast
  from a1 a2 a3 a4 a5 show ?thesis by blast
qed

text \<open>
  C7, with a settings store in which nothing is stored: the lookup of line 195 raises,
  so the resolver returns no bundled default for a supported identifier and raises no
  \<open>ValueError\<close> for an unsupported one.
\<close>

theorem config_file_path_unset_store_raises:
  "config_file_path demo_unset ''pylint'' = Inl (NoSectionError ''cli'') \<and>
   config_file_path demo_unset ''mypy'' = Inl (NoSectionError ''cli'')"
  by (simp add: config_file_path_def demo_unset_def demo_def)

text \<open>
  C10. When some extension path of the table has no match for the extension glob,
  \<^verbatim>\<open>run_pylint\<close> raises \<open>IndexError\<close> before anything is logged or run; so whenever
  \<^verbatim>\<open>run_pylint\<close> returns a result, every extension path of the table has a match.
\<close>

theorem run_pylint_index_error:
  "((\<exists>p \<in> set (dict_values (ext_d modules)). glob K w (ext_glob_pattern K p) = []) \<longrightarrow>
      run_pylint K w modules checkers env disable_all enable = ([], w, Inl IndexError)) \<and>
   (run_pylint K w modules checkers env disable_all enable = (tr, w', Inr r) \<longrightarrow>
      (\<forall>p \<in> set (dict_values (ext_d modules)). glob K w (ext_glob_pattern K p) \<noteq> []))"
  using run_pylint_fails[of modules K w checkers env disable_all enable]
    run_pylint_returned[of K w modules checkers env disable_all enable tr w' r]
  by blast

theorem run_pylint_index_error_witness:
  "run_pylint (demo\<lparr>glob := (\<lambda>w pattern. [])\<rparr>) 0 demo_table None None False None =
     ([], 0, Inl IndexError) \<and>
   (\<exists>tr w' r. run_pylint demo 0 demo_table None None False None = (tr, w', Inr r)) \<and>
   glob demo 0 (ext_glob_pattern demo ''/exts/src/myext'') \<noteq> []"
proof -
  let ?bare = "demo\<lparr>glob := (\<lambda>w pattern. [])\<rparr>"
  have none: "\<exists>p \<in> set (dict_values (ext_d demo_table)).
      glob ?bare 0 (ext_glob_pattern ?bare p) = []"
    by (simp add: demo_table_def dict_values_def)
  have ret: "\<exists>tr w' r. run_pylint demo 0 demo_table None None False None = (tr, w', Inr r)"
    by (simp add: model_defs demo_defs)
  then obtain tr w' r where
    r: "run_pylint demo 0 demo_table None None False None = (tr, w', Inr r)" by blast
  from run_pylint_index_error[of demo_table ?bare 0 None None False None] none
  have a: "run_pylint ?bare 0 demo_table None None False None = ([], 0, Inl IndexError)"
    by blast
  from run_pylint_index_error[of demo_table demo 0 None None False None tr w' r] r
  have "\<forall>p \<in> set (dict_values (ext_d demo_table)). glob demo 0 (ext_glob_pattern demo p) \<noteq> []"
    by blast
  then have b: "glob demo 0 (ext_glob_pattern demo ''/exts/src/myext'') \<noteq> []"
    by (simp add: demo_table_def dict_values_def)
  from a ret b show ?thesis by blast
qed




section \<open>Lemmas: the orchestrator\<close>

lemma pylint_run_no_filter:
  "pylint_run K w paths rc desc ch env da en = (tr, w', r) \<Longrightarrow> ev \<in> set tr \<Longrightarrow>
   \<not> is_filter_call ev"
  by (auto simp: pylint_run_def Let_def split: if_splits)

lemma pep8_run_no_filter:
  "pep8_run K w paths rc desc = (tr, w', r) \<Longrightarrow> ev \<in> set tr \<Longrightarrow> \<not> is_filter_call ev"
  by (auto simp: pep8_run_def Let_def split: if_splits)

lemma run_pylint_no_filter:
  "run_pylint K w m ch env da en = (tr, w', r) \<Longrightarrow> ev \<in> set tr \<Longrightarrow> \<not> is_filter_call ev"
  by (auto simp: run_pylint_def split: sum.splits prod.splits dest: pylint_run_no_filter)

lemma run_pep8_no_filter:
  "run_pep8 K w m = (tr, w', r) \<Longrightarrow> ev \<in> set tr \<Longrightarrow> \<not> is_filter_call ev"
  by (auto simp: run_pep8_def split: sum.splits prod.splits dest: pep8_run_no_filter)

lemma pylint_stage_no_filter:
  "pylint_stage K w m p = (tr, w', r) \<Longrightarrow> ev \<in> set tr \<Longrightarrow> \<not> is_filter_call ev"
  by (auto simp: pylint_stage_def split: if_splits sum.splits prod.splits option.splits
      dest: run_pylint_no_filter)

lemma pep8_stage_no_filter:
  "pep8_stage K w m p = (tr, w', r) \<Longrightarrow> ev \<in> set tr \<Longrightarrow> \<not> is_filter_call ev"
  by (auto simp: pep8_stage_def split: if_splits sum.splits prod.splits option.splits
      dest: run_pep8_no_filter)

lemma run_checks_no_filter:
  "run_checks K w m p q = (tr, w', e) \<Longrightarrow> ev \<in> set tr \<Longrightarrow> \<not> is_filter_call ev"
  by (auto simp: run_checks_def Let_def split: if_splits sum.splits prod.splits
      dest: pylint_stage_no_filter pep8_stage_no_filter)

lemma run_checks_flags_default:
  "run_checks K w t False False = run_checks K w t True True"
  by (simp add: run_checks_def)

lemma pylint_stage_failed:
  assumes "run_pylint K w t None None False None = (tr, w', Inr r)" and "error r = Some e"
  shows "pylint_stage K w t True =
           (tr @ [Display ''Pylint: PASSED'', LogError (output_bytes e),
                  LogError (''Pylint: FAILED'' @ nl)], w', Inr (exit_code r))"
  using assms by (simp add: pylint_stage_def)

lemma check_style_when_preflight_fails:
  assumes "pylint" and "require_azure_cli K = Some x"
  shows "check_style K w modules pylint pep8 git_source git_target git_repo =
           (preflight_trace modules pylint, w,
            case x of
              CLIError m \<Rightarrow> CLIError ''usage error: --pylint requires Azure CLI to be installed.''
            | _ \<Rightarrow> x)"
  using assms by (cases x) (simp_all add: check_style_def preflight_trace_def Let_def)

lemma check_style_when_preflight_passes:
  assumes "pylint \<longrightarrow> require_azure_cli K = None"
  shows "check_style K w modules pylint pep8 git_source git_target git_repo =
     (let t4 = handed_to_filter K modules;
          t5 = filter_by_git_diff K t4 git_source git_target git_repo;
          tr2 = preflight_trace modules pylint @ [FilterByGitDiff t4 git_source git_target git_repo]
      in if \<not> (truthy_dict (core_d t5) \<or> truthy_dict (mod_d t5) \<or> truthy_dict (ext_d t5))
         then (tr2, w, CLIError ''No modules selected.'')
         else (case run_checks K w t5 pylint pep8 of (tr3, w3, e) \<Rightarrow> (tr2 @ tr3, w3, e)))"
  using assms
  by (cases pylint) (simp_all add: check_style_def preflight_trace_def handed_to_filter_def Let_def)

lemma preflight_trace_plain:
  "ev \<in> set (preflight_trace modules pylint) \<Longrightarrow> \<not> is_filter_call ev \<and> \<not> is_subprocess ev"
  by (auto simp: preflight_trace_def split: if_splits)

lemma check_style_filter_call:
  assumes call: "FilterByGitDiff t a b c
      \<in> set (fst (check_style K w modules pylint pep8 git_source git_target git_repo))"
  shows "(pylint \<longrightarrow> require_azure_cli K = None) \<and> t = handed_to_filter K modules \<and>
         a = git_source \<and> b = git_target \<and> c = git_repo"
proof (cases "pylint \<and> require_azure_cli K \<noteq> None")
  case True
  then obtain x where "pylint" "require_azure_cli K = Some x" by auto
  from check_style_when_preflight_fails[OF this] call
    preflight_trace_plain[of "FilterByGitDiff t a b c" modules pylint]
  show ?thesis by auto
next
  case False
  then have ok: "pylint \<longrightarrow> require_azure_cli K = None" by auto
  obtain tr3 w3 e3 where rc: "run_checks K w
      (filter_by_git_diff K (handed_to_filter K modules) git_source git_target git_repo)
      pylint pep8 = (tr3, w3, e3)"
    by (metis prod_cases3)
  from run_checks_no_filter[OF rc, of "FilterByGitDiff t a b c"]
  have no3: "FilterByGitDiff t a b c \<notin> set tr3" by auto
  from preflight_trace_plain[of "FilterByGitDiff t a b c" modules pylint]
  have no0: "FilterByGitDiff t a b c \<notin> set (preflight_trace modules pylint)" by auto
  from call no3 no0 rc ok show ?thesis
    by (auto simp: check_style_when_preflight_passes[OF ok] Let_def split: if_splits)
qed

lemma check_style_reaches_filter:
  assumes "pylint \<longrightarrow> require_azure_cli K = None"
  shows "FilterByGitDiff (handed_to_filter K modules) git_source git_target git_repo
           \<in> set (fst (check_style K w modules pylint pep8 git_source git_target git_repo))"
  unfolding check_style_when_preflight_passes[OF assms]
  by (auto simp: Let_def split: prod.splits)

lemma check_style_flags_default:
  assumes "require_azure_cli K = None"
  shows "snd (check_style K w modules False False git_source git_target git_repo) =
           snd (check_style K w modules True True git_source git_target git_repo) \<and>
         filter is_subprocess
           (fst (check_style K w modules False False git_source git_target git_repo)) =
         filter is_subprocess
           (fst (check_style K w modules True True git_source git_target git_repo))"
proof -
  have a: "False \<longrightarrow> require_azure_cli K = None" by simp
  have b: "True \<longrightarrow> require_azure_cli K = None" using assms by simp
  show ?thesis
    unfolding check_style_when_preflight_passes[OF a] check_style_when_preflight_passes[OF b]
    by (simp add: Let_def preflight_trace_def run_checks_flags_default split: prod.splits)
qed

lemma handed_to_filter_cleared:
  "(modules = Some [''CLI''] \<longrightarrow> ext_d (handed_to_filter K modules) = []) \<and>
   (modules = Some [''EXT''] \<longrightarrow>
      core_d (handed_to_filter K modules) = [] \<and> mod_d (handed_to_filter K modules) = []) \<and>
   ''azure-cli-nspkg'' \<notin> set (dict_keys (core_d (handed_to_filter K modules))) \<and>
   ''azure-cli-command_modules-nspkg'' \<notin> set (dict_keys (core_d (handed_to_filter K modules)))"
  by (auto simp: handed_to_filter_def Let_def dict_keys_def dict_pop_def)

lemma check_style_with_pylint_flag:
  assumes "pylint"
  shows "RequireAzureCli
           \<in> set (fst (check_style K w modules pylint pep8 git_source git_target git_repo)) \<and>
         (require_azure_cli K = Some (CLIError m) \<longrightarrow>
            check_style K w modules pylint pep8 git_source git_target git_repo =
              ([Heading ''Style Check'',
                GetPathTable (if modules = Some [''CLI''] \<or> modules = Some [''EXT'']
                              then None else modules),
                RequireAzureCli], w,
               CLIError ''usage error: --pylint requires Azure CLI to be installed.''))"
proof (cases "require_azure_cli K")
  case None
  then have ok: "pylint \<longrightarrow> require_azure_cli K = None" by simp
  show ?thesis using None assms
    unfolding check_style_when_preflight_passes[OF ok]
    by (auto simp: Let_def preflight_trace_def split: prod.splits)
next
  case (Some x)
  note eq = check_style_when_preflight_fails
    [OF assms Some, of w modules pep8 git_source git_target git_repo]
  have "preflight_trace modules pylint =
      [Heading ''Style Check'',
       GetPathTable (if modules = Some [''CLI''] \<or> modules = Some [''EXT'']
                     then None else modules),
       RequireAzureCli]"
    using assms by (simp add: preflight_trace_def)
  with eq Some show ?thesis by auto
qed

section \<open>Claims on the orchestrator\<close>

text \<open>
  C1. In a run of \<^verbatim>\<open>check_style\<close> that hands a table to the git-diff filter and gets back
  a table whose three partitions are empty, the run ends with the usage error
  \<open>No modules selected.\<close>; its trace is the heading, the calls of the collaborators up to
  the filter and nothing more, so no subprocess is started and the world is unchanged.
\<close>

theorem check_style_no_modules_selected:
  assumes call: "FilterByGitDiff t a b c
      \<in> set (fst (check_style K w modules pylint pep8 git_source git_target git_repo))"
    and core: "core_d (filter_by_git_diff K t a b c) = []"
    and mod: "mod_d (filter_by_git_diff K t a b c) = []"
    and ext: "ext_d (filter_by_git_diff K t a b c) = []"
  shows "check_style K w modules pylint pep8 git_source git_target git_repo =
           ([Heading ''Style Check'',
             GetPathTable (if modules = Some [''CLI''] \<or> modules = Some [''EXT'']
                           then None else modules)] @
            (if pylint then [RequireAzureCli] else []) @
            [FilterByGitDiff t a b c],
            w, CLIError ''No modules selected.'') \<and>
         filter is_subprocess
           (fst (check_style K w modules pylint pep8 git_source git_target git_repo)) = []"
proof -
  from check_style_filter_call[OF call]
  have ok: "pylint \<longrightarrow> require_azure_cli K = None"
    and t: "t = handed_to_filter K modules" "a = git_source" "b = git_target" "c = git_repo"
    by auto
  from core mod ext show ?thesis
    unfolding t check_style_when_preflight_passes[OF ok]
    by (simp add: Let_def preflight_trace_def)
qed

theorem check_style_no_modules_selected_witness:
  "FilterByGitDiff
     \<lparr>core_d = [(''azure-cli-core'', ''/cli/src/azure-cli-core'')],
      mod_d = [(''vm'', ''/cli/src/command_modules/azure-cli-vm'')],
      ext_d = [(''myext'', ''/exts/src/myext'')]\<rparr> (Some ''HEAD~1'') None None
     \<in> set (fst (check_style demo 0 None True True (Some ''HEAD~1'') None None)) \<and>
   check_style demo 0 None True True (Some ''HEAD~1'') None None =
     ([Heading ''Style Check'', GetPathTable None, RequireAzureCli,
       FilterByGitDiff
         \<lparr>core_d = [(''azure-cli-core'', ''/cli/src/azure-cli-core'')],
          mod_d = [(''vm'', ''/cli/src/command_modules/azure-cli-vm'')],
          ext_d = [(''myext'', ''/exts/src/myext'')]\<rparr> (Some ''HEAD~1'') None None],
      0, CLIError ''No modules selected.'')"
proof -
  let ?t = "\<lparr>core_d = [(''azure-cli-core'', ''/cli/src/azure-cli-core'')],
      mod_d = [(''vm'', ''/cli/src/command_modules/azure-cli-vm'')],
      ext_d = [(''myext'', ''/exts/src/myext'')]\<rparr>"
  have call: "FilterByGitDiff ?t (Some ''HEAD~1'') None None
      \<in> set (fst (check_style demo 0 None True True (Some ''HEAD~1'') None None))"
    by (simp add: check_style_def demo_def demo_table_def dict_pop_def Let_def)
  have core: "core_d (filter_by_git_diff demo ?t (Some ''HEAD~1'') None None) = []"
    and mod: "mod_d (filter_by_git_diff demo ?t (Some ''HEAD~1'') None None) = []"
    and ext: "ext_d (filter_by_git_diff demo ?t (Some ''HEAD~1'') None None) = []"
    by (simp_all add: demo_def)
  from check_style_no_modules_selected[OF call core mod ext] call
  show ?thesis by simp
qed

text \<open>
  C6. Whatever table \<^verbatim>\<open>check_style\<close> hands to the git-diff filter: its \<open>ext\<close> partition is
  empty when the module list is \<open>[CLI]\<close>, its \<open>core\<close> and \<open>mod\<close> partitions are empty when
  the list is \<open>[EXT]\<close>, and in every case its \<open>core\<close> partition has neither the entry
  \<open>azure-cli-nspkg\<close> nor the entry \<open>azure-cli-command_modules-nspkg\<close>. The filter is
  handed a table whenever the pre-flight check does not raise.
\<close>

theorem check_style_sentinels:
  "(FilterByGitDiff t a b c
      \<in> set (fst (check_style K w modules pylint pep8 git_source git_target git_repo)) \<longrightarrow>
      (modules = Some [''CLI''] \<longrightarrow> ext_d t = []) \<and>
      (modules = Some [''EXT''] \<longrightarrow> core_d t = [] \<and> mod_d t = []) \<and>
      ''azure-cli-nspkg'' \<notin> set (dict_keys (core_d t)) \<and>
      ''azure-cli-command_modules-nspkg'' \<notin> set (dict_keys (core_d t))) \<and>
   ((pylint \<longrightarrow> require_azure_cli K = None) \<longrightarrow>
      (\<exists>t'. FilterByGitDiff t' git_source git_target git_repo
         \<in> set (fst (check_style K w modules pylint pep8 git_source git_target git_repo))))"
  using check_style_filter_call[of t a b c K w modules pylint pep8 git_source git_target git_repo]
    handed_to_filter_cleared[of modules K]
    check_style_reaches_filter[of pylint K modules git_source git_target git_repo w pep8]
  by blast

theorem check_style_sentinels_witness:
  "FilterByGitDiff
     \<lparr>core_d = [(''azure-cli-core'', ''/cli/src/azure-cli-core'')],
      mod_d = [(''vm'', ''/cli/src/command_modules/azure-cli-vm'')],
      ext_d = []\<rparr> None None None
     \<in> set (fst (check_style demo 0 (Some [''CLI'']) False True None None None)) \<and>
   FilterByGitDiff
     \<lparr>core_d = [], mod_d = [], ext_d = [(''myext'', ''/exts/src/myext'')]\<rparr> None None None
     \<in> set (fst (check_style demo 0 (Some [''EXT'']) False True None None None)) \<and>
   ''azure-cli-nspkg'' \<notin> set (dict_keys [(''azure-cli-core'', ''/cli/src/azure-cli-core'')])"
proof -
  let ?cli = "\<lparr>core_d = [(''azure-cli-core'', ''/cli/src/azure-cli-core'')],
      mod_d = [(''vm'', ''/cli/src/command_modules/azure-cli-vm'')],
      ext_d = []\<rparr>"
  let ?ext = "\<lparr>core_d = [], mod_d = [], ext_d = [(''myext'', ''/exts/src/myext'')]\<rparr>"
  have c1: "FilterByGitDiff ?cli None None None
      \<in> set (fst (check_style demo 0 (Some [''CLI'']) False True None None None))"
    by (simp add: model_defs demo_defs)
  have c2: "FilterByGitDiff ?ext None None None
      \<in> set (fst (check_style demo 0 (Some [''EXT'']) False True None None None))"
    by (simp add: model_defs demo_defs)
  from check_style_sentinels
    [of ?cli None None None demo 0 "Some [''CLI'']" False True None None None] c1
  have "''azure-cli-nspkg'' \<notin> set (dict_keys (core_d ?cli))" by blast
  with c1 c2 show ?thesis by simp
qed

text \<open>
  C8. Evaluation of \<^verbatim>\<open>check_style\<close> with neither flag, for the core packages and command
  modules, on a machine without Azure CLI. The flags are defaulted in lines 71 to 74, after
  the pre-flight check of lines 43 to 47, which tests the flag: the linter is run as a
  subprocess, \<^verbatim>\<open>require_azure_cli\<close> is never called and the run ends with exit status 0
  instead of the usage error.
\<close>

theorem check_style_default_lints_without_preflight:
  "RequireAzureCli
     \<notin> set (fst (check_style demo_no_cli 0 (Some [''CLI'']) False False None None None)) \<and>
   filter is_subprocess
     (fst (check_style demo_no_cli 0 (Some [''CLI'']) False False None None None)) =
     [PyCmd (''pylint /cli/src/azure-cli-core/azure/cli/core '' @
             ''/cli/src/command_modules/azure-cli-vm --rcfile=/cli/pylintrc --jobs 4'')
        ''Running pylint on modules...'' None,
      PyCmd (''flake8 --statistics --append-config=/cli/.flake8 /cli/src/azure-cli-core '' @
             ''/cli/src/command_modules/azure-cli-vm'')
        ''Running flake8 on modules...'' None] \<and>
   snd (check_style demo_no_cli 0 (Some [''CLI'']) False False None None None) =
     (2, SystemExit 0)"
  by (simp add: model_defs demo_defs)

text \<open>
  C3. Evaluation of \<^verbatim>\<open>check_style\<close> with the linter flag on collaborators whose linter
  finds an issue. The linter result has an error and exit code 2, and the run ends with
  exit status 2 after logging the captured output and \<open>Pylint: FAILED\<close>; but before
  that it displays \<open>Pylint: PASSED\<close>.
\<close>

theorem check_style_displays_passed_for_failed_linter:
  "check_style demo_lint_fails 0 (Some [''CLI'']) True False None None None =
   ([Heading ''Style Check'', GetPathTable None, RequireAzureCli,
     FilterByGitDiff
       \<lparr>core_d = [(''azure-cli-core'', ''/cli/src/azure-cli-core'')],
        mod_d = [(''vm'', ''/cli/src/command_modules/azure-cli-vm'')],
        ext_d = []\<rparr> None None None,
     Display (''Modules: vm, azure-cli-core'' @ nl),
     LogDebug ''Using rcfile file: /cli/pylintrc'',
     LogDebug (''Running on modules: /cli/src/azure-cli-core/azure/cli/core'' @ nl @
               ''/cli/src/command_modules/azure-cli-vm''),
     PyCmd (''pylint /cli/src/azure-cli-core/azure/cli/core '' @
            ''/cli/src/command_modules/azure-cli-vm --rcfile=/cli/pylintrc --jobs 4'')
       ''Running pylint on modules...'' None,
     Display ''Pylint: PASSED'',
     LogError ''E0001: syntax-error'',
     LogError (''Pylint: FAILED'' @ nl)],
    1, SystemExit 2)"
  by (simp add: model_defs demo_defs)

text \<open>
  C4. Evaluation of \<^verbatim>\<open>check_style\<close> on a machine without Azure CLI, for the extensions.
  With both flags false the two tools run and the run ends with exit status 0; with
  both flags true the run ends with the usage error of the pre-flight check and no
  subprocess is started.
\<close>

theorem check_style_flags_omitted_skips_preflight:
  "filter is_subprocess
     (fst (check_style demo_no_cli 0 (Some [''EXT'']) False False None None None)) =
     [PyCmd ''pylint /exts/src/myext/azext_myext --rcfile=/exts/azure-cli-extensions/pylintrc --jobs 4''
        ''Running pylint on extensions...'' None,
      PyCmd ''flake8 --statistics --append-config=/exts/azure-cli-extensions/.flake8 /exts/src/myext''
        ''Running flake8 on extensions...'' None] \<and>
   snd (check_style demo_no_cli 0 (Some [''EXT'']) False False None None None) =
     (2, SystemExit 0) \<and>
   RequireAzureCli
     \<notin> set (fst (check_style demo_no_cli 0 (Some [''EXT'']) False False None None None)) \<and>
   check_style demo_no_cli 0 (Some [''EXT'']) True True None None None =
     ([Heading ''Style Check'', GetPathTable None, RequireAzureCli], 0,
      CLIError ''usage error: --pylint requires Azure CLI to be installed.'')"
  by (simp add: model_defs demo_defs)

end
